theory Spec2Isabelle
  imports Main
begin

section \<open>Python values\<close>

text \<open>
  The client of \<^verbatim>\<open>docs/examples/python/metadata_client.py\<close> handles decoded JSON
  bodies without checking their shape, so the model keeps every value
  \<^verbatim>\<open>response.json()\<close> can return. \<open>JNull\<close> is Python's \<^verbatim>\<open>None\<close>. A dictionary is
  an association list in insertion order, read with \<open>map_of\<close>; a list that stands for
  a dictionary has distinct keys. A float is kept by its literal: the client never
  computes with numbers.
\<close>

datatype json =
    JNull
  | JBool bool
  | JInt int
  | JFloat string
  | JStr string
  | JList "json list"
  | JDict "(string \<times> json) list"

subsection \<open>Exceptions\<close>

text \<open>
  \<^verbatim>\<open>CODAPMetadataError\<close> and its three subclasses. Each constructor holds the attributes
  the instance has after \<^verbatim>\<open>__init__\<close>: the message (\<^verbatim>\<open>str(e)\<close>), \<^verbatim>\<open>code\<close> and
  \<^verbatim>\<open>status_code\<close>; \<^verbatim>\<open>VersionNotSupportedError\<close> has two attributes more.
\<close>

datatype client_error =
    is_CODAPMetadataError: CODAPMetadataError
      (err_message: string) (err_code: "string option") (err_status_code: "int option")
  | is_AuthenticationError: AuthenticationError
      (err_message: string) (err_code: "string option") (err_status_code: "int option")
  | is_SessionExpiredError: SessionExpiredError
      (err_message: string) (err_code: "string option") (err_status_code: "int option")
  | is_VersionNotSupportedError: VersionNotSupportedError
      (err_message: string) (err_code: "string option") (err_status_code: "int option")
      (err_requested_version: json) (err_supported_versions: json)

text \<open>
  \<^verbatim>\<open>VersionNotSupportedError.__init__(message, requested_version, supported_versions)\<close>
  calls \<^verbatim>\<open>super().__init__(message, 'VERSION_NOT_SUPPORTED')\<close>: the code is fixed and
  \<^verbatim>\<open>status_code\<close> keeps the base class's default \<^verbatim>\<open>None\<close>.
\<close>

definition VersionNotSupportedError_init :: "string \<Rightarrow> json \<Rightarrow> json \<Rightarrow> client_error" where
  "VersionNotSupportedError_init msg rv svs =
     VersionNotSupportedError msg (Some ''VERSION_NOT_SUPPORTED'') None rv svs"

text \<open>
  Everything a method of the client can raise. \<open>Client\<close> is the
  \<^verbatim>\<open>CODAPMetadataError\<close> family; \<open>ValueError\<close> is a JSON decode error that is not a
  \<^verbatim>\<open>requests.RequestException\<close>; the others come from the interpreter.
\<close>

datatype py_exc =
    Client client_error
  | ValueError string
  | AttributeError
  | KeyError string
  | TypeError

subsection \<open>Built-in operations\<close>

text \<open>\<^verbatim>\<open>obj.get(key, default)\<close>: only a dictionary has the method.\<close>

fun dict_get :: "json \<Rightarrow> string \<Rightarrow> json \<Rightarrow> py_exc + json" where
  "dict_get (JDict kvs) k d = Inr (case map_of kvs k of Some v \<Rightarrow> v | None \<Rightarrow> d)"
| "dict_get _ k d = Inl AttributeError"

text \<open>\<^verbatim>\<open>obj[key]\<close> with a string key.\<close>

fun py_getitem :: "json \<Rightarrow> string \<Rightarrow> py_exc + json" where
  "py_getitem (JDict kvs) k = (case map_of kvs k of Some v \<Rightarrow> Inr v | None \<Rightarrow> Inl (KeyError k))"
| "py_getitem _ k = Inl TypeError"

text \<open>
  \<^verbatim>\<open>for x in obj\<close>: a list gives its elements, a dictionary its keys, a string its
  characters; nothing else is iterable.
\<close>

fun py_iter :: "json \<Rightarrow> py_exc + json list" where
  "py_iter (JList xs) = Inr xs"
| "py_iter (JDict kvs) = Inr (map (\<lambda>kv. JStr (fst kv)) kvs)"
| "py_iter (JStr s) = Inr (map (\<lambda>c. JStr [c]) s)"
| "py_iter _ = Inl TypeError"

text \<open>
  A replacement field \<^verbatim>\<open>{x}\<close> of an f-string. A string is inserted as it is; for any
  other value the interpreter's \<^verbatim>\<open>str()\<close> decides, which the model takes as the
  parameter \<open>render\<close>.
\<close>

fun fstr :: "(json \<Rightarrow> string) \<Rightarrow> json \<Rightarrow> string" where
  "fstr render (JStr s) = s"
| "fstr render v = render v"

text \<open>
  The closed examples below format strings only, so no renderer is ever consulted
  there; they pass this one.
\<close>

definition opaque_str :: "json \<Rightarrow> string" where
  "opaque_str v = ''<value>''"

text \<open>\<^verbatim>\<open>str(n)\<close> of an integer, as \<^verbatim>\<open>{status_code}\<close> needs it.\<close>

definition digit_char :: "nat \<Rightarrow> char" where
  "digit_char d = ''0123456789'' ! d"

function str_nat :: "nat \<Rightarrow> string" where
  "str_nat n = (if n < 10 then [digit_char n] else str_nat (n div 10) @ [digit_char (n mod 10)])"
  by pat_completeness auto
termination
  by (relation "measure id") auto

declare str_nat.simps [simp del]

definition str_int :: "int \<Rightarrow> string" where
  "str_int i = (if i < 0 then CHR ''-'' # str_nat (nat (- i)) else str_nat (nat i))"

section \<open>The client\<close>

subsection \<open>Construction and the request\<close>

text \<open>\<^verbatim>\<open>base_url.rstrip('/')\<close>\<close>

definition rstrip_slash :: "string \<Rightarrow> string" where
  "rstrip_slash s = rev (dropWhile (\<lambda>c. c = CHR ''/'') (rev s))"

record client =
  base_url :: string
  session_code :: string
  timeout :: int
  session_headers :: "(string \<times> string) list"

text \<open>
  \<^verbatim>\<open>CODAPMetadataClient.__init__\<close>. \<open>session_headers\<close> holds the two headers the
  constructor sets on the session.
\<close>

definition CODAPMetadataClient_init :: "string \<Rightarrow> string \<Rightarrow> int \<Rightarrow> client" where
  "CODAPMetadataClient_init b s t =
     \<lparr>base_url = rstrip_slash b, session_code = s, timeout = t,
      session_headers = [(''Content-Type'', ''application/json''),
                         (''User-Agent'', ''CODAP-Metadata-Client-Python/1.0.0'')]\<rparr>"

text \<open>The arguments of \<^verbatim>\<open>self.session.get(url, headers=headers, timeout=self.timeout)\<close>.\<close>

record request =
  url :: string
  headers :: "(string \<times> string) list"
  req_timeout :: int

text \<open>
  Lines 94 to 99 of \<^verbatim>\<open>get_tool_manifest\<close>. \<^verbatim>\<open>if api_version:\<close> tests truth, so both
  \<^verbatim>\<open>None\<close> and the empty string add no header.
\<close>

definition manifest_request :: "client \<Rightarrow> string option \<Rightarrow> request" where
  "manifest_request self api_version =
     \<lparr>url = base_url self @ ''/api/sessions/'' @ session_code self @ ''/metadata'',
      headers = (case api_version of
                   None \<Rightarrow> []
                 | Some v \<Rightarrow> if v = [] then [] else [(''Accept-Version'', v)]),
      req_timeout = timeout self\<rparr>"

subsection \<open>Responses\<close>

text \<open>
  What the HTTP library hands back. \<open>json_result\<close> is the outcome of
  \<^verbatim>\<open>response.json()\<close>: the decoded value, or the decode error. That error is always a
  \<^verbatim>\<open>ValueError\<close>; from requests 2.27 on it is a \<^verbatim>\<open>requests.RequestException\<close> as well,
  which \<open>is_request_exception\<close> records.
\<close>

datatype decode_error = DecodeError (is_request_exception: bool) (decode_message: string)

record response =
  status_code :: int
  body_text :: string
  json_result :: "decode_error + json"

text \<open>
  The transport: \<^verbatim>\<open>session.get\<close> returns a response or raises a
  \<^verbatim>\<open>requests.RequestException\<close> \<open>e\<close>, given here by \<^verbatim>\<open>str(e)\<close>.
\<close>

type_synonym transport = "request \<Rightarrow> string + response"

subsection \<open>The response classifier\<close>

text \<open>
  Lines 201 to 204 of \<^verbatim>\<open>_handle_error_response\<close>: the decoded body, or, when decoding
  raises, a dictionary holding the raw text (\<^verbatim>\<open>response.text or 'Unknown error'\<close>).
\<close>

definition error_data :: "response \<Rightarrow> json" where
  "error_data resp =
     (case json_result resp of
        Inr v \<Rightarrow> v
      | Inl _ \<Rightarrow>
          JDict [(''error'',
            JStr (if body_text resp = [] then ''Unknown error'' else body_text resp))])"

text \<open>
  The rest of \<^verbatim>\<open>_handle_error_response\<close>. Every path of the source ends in a
  \<^verbatim>\<open>raise\<close> or in an exception of the interpreter; the model returns the exception
  that leaves the method.
\<close>

definition handle_error_response :: "(json \<Rightarrow> string) \<Rightarrow> response \<Rightarrow> py_exc" where
  "handle_error_response render resp =
     (let sc = status_code resp
      in case dict_get (error_data resp) ''error'' (JStr (''HTTP '' @ str_int sc @ '' error'')) of
           Inl e \<Rightarrow> e
         | Inr error_message \<Rightarrow>
             if sc = 400 then
               Client (CODAPMetadataError
                 (''Bad Request: '' @ fstr render error_message) None (Some sc))
             else if sc = 401 then
               Client (AuthenticationError
                 (''Unauthorized: '' @ fstr render error_message)
                 (Some ''AUTHENTICATION_FAILED'') (Some sc))
             else if sc = 403 then
               Client (SessionExpiredError
                 (''Forbidden: '' @ fstr render error_message)
                 (Some ''SESSION_EXPIRED'') (Some sc))
             else if sc = 405 then
               Client (CODAPMetadataError
                 (''Method Not Allowed: '' @ fstr render error_message) None (Some sc))
             else if sc = 406 then
               (case dict_get (error_data resp) ''requestedVersion'' (JStr ''unknown'') of
                  Inl e \<Rightarrow> e
                | Inr rv \<Rightarrow>
                    (case dict_get (error_data resp) ''supportedVersions'' (JList []) of
                       Inl e \<Rightarrow> e
                     | Inr svs \<Rightarrow>
                         Client (VersionNotSupportedError_init
                           (''Unsupported version: '' @ fstr render rv) rv svs)))
             else if sc = 500 then
               Client (CODAPMetadataError
                 (''Internal Server Error: '' @ fstr render error_message) None (Some sc))
             else
               Client (CODAPMetadataError
                 (''HTTP '' @ str_int sc @ '': '' @ fstr render error_message) None (Some sc)))"

subsection \<open>Fetching the manifest\<close>

text \<open>
  \<^verbatim>\<open>get_tool_manifest\<close>. The three \<^verbatim>\<open>print\<close> lines write to the console only and are
  left out. The \<^verbatim>\<open>try\<close> block covers the request, \<^verbatim>\<open>response.json()\<close> and the
  classifier; its handler catches \<^verbatim>\<open>requests.RequestException\<close> alone.
\<close>

definition get_tool_manifest ::
  "(json \<Rightarrow> string) \<Rightarrow> transport \<Rightarrow> client \<Rightarrow> string option \<Rightarrow> py_exc + json" where
  "get_tool_manifest render send self api_version =
     (case send (manifest_request self api_version) of
        Inl e \<Rightarrow> Inl (Client (CODAPMetadataError (''Network error: '' @ e) None None))
      | Inr resp \<Rightarrow>
          if status_code resp = 200 then
            (case json_result resp of
               Inr v \<Rightarrow> Inr v
             | Inl (DecodeError is_req e) \<Rightarrow>
                 if is_req
                 then Inl (Client (CODAPMetadataError (''Network error: '' @ e) None None))
                 else Inl (ValueError e))
          else Inl (handle_error_response render resp))"

subsection \<open>Convenience methods\<close>

text \<open>
  Each of the three wraps its whole body in \<^verbatim>\<open>try\<close> with the handler
  \<^verbatim>\<open>except CODAPMetadataError\<close>, which prints the error and returns a default. An
  exception of another class (a \<^verbatim>\<open>KeyError\<close> on a body that is no manifest, say)
  passes through.
\<close>

text \<open>\<^verbatim>\<open>any(tool['name'] == tool_name for tool in ...)\<close>: stops at the first match.\<close>

fun any_name_eq :: "json list \<Rightarrow> string \<Rightarrow> py_exc + bool" where
  "any_name_eq [] tool_name = Inr False"
| "any_name_eq (tool # tools) tool_name =
     (case py_getitem tool ''name'' of
        Inl e \<Rightarrow> Inl e
      | Inr v \<Rightarrow> if v = JStr tool_name then Inr True else any_name_eq tools tool_name)"

definition is_tool_available ::
  "(json \<Rightarrow> string) \<Rightarrow> transport \<Rightarrow> client \<Rightarrow> string \<Rightarrow> py_exc + bool" where
  "is_tool_available render send self tool_name =
     (case get_tool_manifest render send self None of
        Inl (Client e) \<Rightarrow> Inr False
      | Inl e \<Rightarrow> Inl e
      | Inr m \<Rightarrow>
          (case py_getitem m ''tools'' of
             Inl e \<Rightarrow> Inl e
           | Inr ts \<Rightarrow>
               (case py_iter ts of
                  Inl e \<Rightarrow> Inl e
                | Inr tools \<Rightarrow> any_name_eq tools tool_name)))"

text \<open>
  The loop of \<^verbatim>\<open>get_tool_schema\<close>: the first tool of that name decides, and
  \<^verbatim>\<open>tool.get('inputSchema')\<close> is \<^verbatim>\<open>None\<close> when the key is missing.
\<close>

fun find_schema :: "json list \<Rightarrow> string \<Rightarrow> py_exc + json" where
  "find_schema [] tool_name = Inr JNull"
| "find_schema (tool # tools) tool_name =
     (case py_getitem tool ''name'' of
        Inl e \<Rightarrow> Inl e
      | Inr v \<Rightarrow>
          if v = JStr tool_name then dict_get tool ''inputSchema'' JNull
          else find_schema tools tool_name)"

definition get_tool_schema ::
  "(json \<Rightarrow> string) \<Rightarrow> transport \<Rightarrow> client \<Rightarrow> string \<Rightarrow> py_exc + json" where
  "get_tool_schema render send self tool_name =
     (case get_tool_manifest render send self None of
        Inl (Client e) \<Rightarrow> Inr JNull
      | Inl e \<Rightarrow> Inl e
      | Inr m \<Rightarrow>
          (case py_getitem m ''tools'' of
             Inl e \<Rightarrow> Inl e
           | Inr ts \<Rightarrow>
               (case py_iter ts of
                  Inl e \<Rightarrow> Inl e
                | Inr tools \<Rightarrow> find_schema tools tool_name)))"

text \<open>The list comprehension of \<^verbatim>\<open>list_available_tools\<close>, element by element.\<close>

fun tool_summaries :: "json list \<Rightarrow> py_exc + json list" where
  "tool_summaries [] = Inr []"
| "tool_summaries (tool # tools) =
     (case py_getitem tool ''name'' of
        Inl e \<Rightarrow> Inl e
      | Inr n \<Rightarrow>
          (case py_getitem tool ''description'' of
             Inl e \<Rightarrow> Inl e
           | Inr d \<Rightarrow>
               (case tool_summaries tools of
                  Inl e \<Rightarrow> Inl e
                | Inr rest \<Rightarrow> Inr (JDict [(''name'', n), (''description'', d)] # rest))))"

definition list_available_tools ::
  "(json \<Rightarrow> string) \<Rightarrow> transport \<Rightarrow> client \<Rightarrow> py_exc + json list" where
  "list_available_tools render send self =
     (case get_tool_manifest render send self None of
        Inl (Client e) \<Rightarrow> Inr []
      | Inl e \<Rightarrow> Inl e
      | Inr m \<Rightarrow>
          (case py_getitem m ''tools'' of
             Inl e \<Rightarrow> Inl e
           | Inr ts \<Rightarrow>
               (case py_iter ts of
                  Inl e \<Rightarrow> Inl e
                | Inr tools \<Rightarrow> tool_summaries tools)))"

subsection \<open>The negotiation probe\<close>

text \<open>
  The dataclass \<^verbatim>\<open>VersionNegotiationResult\<close>. Every optional field defaults to
  \<^verbatim>\<open>None\<close>, which is \<open>JNull\<close>.
\<close>

record VersionNegotiationResult =
  success :: bool
  version :: json
  error :: json
  requested_version :: json
  supported_versions :: json
  manifest :: json

text \<open>
  \<^verbatim>\<open>test_version_negotiation\<close>: the handler is \<^verbatim>\<open>except VersionNotSupportedError\<close>, so
  the other classes of the family leave the method as they came.
\<close>

definition test_version_negotiation ::
  "(json \<Rightarrow> string) \<Rightarrow> transport \<Rightarrow> client \<Rightarrow> string \<Rightarrow> py_exc + VersionNegotiationResult"
  where
  "test_version_negotiation render send self rv =
     (case get_tool_manifest render send self (Some rv) of
        Inr m \<Rightarrow>
          (case py_getitem m ''apiVersion'' of
             Inl e \<Rightarrow> Inl e
           | Inr v \<Rightarrow>
               Inr \<lparr>success = True, version = v, error = JNull, requested_version = JNull,
                    supported_versions = JNull, manifest = m\<rparr>)
      | Inl (Client (VersionNotSupportedError msg c s r svs)) \<Rightarrow>
          Inr \<lparr>success = False, version = JNull, error = JStr msg, requested_version = r,
               supported_versions = svs, manifest = JNull\<rparr>
      | Inl e \<Rightarrow> Inl e)"

section \<open>Test doubles\<close>

text \<open>
  Inputs for the closed examples: a transport that answers every request with the
  same response, one that always fails, a response whose body decodes, one whose body
  does not, a client and a manifest.
\<close>

definition reply :: "response \<Rightarrow> transport" where
  "reply resp = (\<lambda>req. Inr resp)"


definition json_response :: "int \<Rightarrow> string \<Rightarrow> json \<Rightarrow> response" where
  "json_response sc raw v = \<lparr>status_code = sc, body_text = raw, json_result = Inr v\<rparr>"

definition text_response :: "int \<Rightarrow> string \<Rightarrow> bool \<Rightarrow> response" where
  "text_response sc raw is_req =
     \<lparr>status_code = sc, body_text = raw,
      json_result = Inl (DecodeError is_req ''Expecting value'')\<rparr>"

definition example_client :: client where
  "example_client = CODAPMetadataClient_init ''https://codap.example/'' ''abc123'' 30"

definition example_manifest :: json where
  "example_manifest =
     JDict [(''apiVersion'', JStr ''1.0.0''),
            (''tools'', JList
               [JDict [(''name'', JStr ''create_codap_dataset''),
                       (''description'', JStr ''Create a dataset''),
                       (''inputSchema'', JDict [(''type'', JStr ''object'')])],
                JDict [(''name'', JStr ''create_graph''),
                       (''description'', JStr ''Create a graph'')]])]"

definition example_manifest_text :: string where
  "example_manifest_text =
     ''{\"apiVersion\": \"1.0.0\", \"tools\": ['' @
     ''{\"name\": \"create_codap_dataset\", \"description\": \"Create a dataset\", '' @
     ''\"inputSchema\": {\"type\": \"object\"}}, '' @
     ''{\"name\": \"create_graph\", \"description\": \"Create a graph\"}]}''"

definition manifest_response :: response where
  "manifest_response = json_response 200 example_manifest_text example_manifest"

definition expired_response :: response where
  "expired_response =
     json_response 403 ''{\"error\": \"expired\"}'' (JDict [(''error'', JStr ''expired'')])"

definition unsupported_response :: response where
  "unsupported_response =
     json_response 406 ''{\"requestedVersion\": \"2.0.0\", \"supportedVersions\": [\"1.0.0\"]}''
       (JDict [(''requestedVersion'', JStr ''2.0.0''),
               (''supportedVersions'', JList [JStr ''1.0.0''])])"

section \<open>Properties\<close>

subsection \<open>Auxiliary facts\<close>

lemma takeWhile_eq_replicate:
  "takeWhile (\<lambda>c. c = a) xs = replicate (length (takeWhile (\<lambda>c. c = a) xs)) a"
  by (induction xs) auto

lemma rstrip_slash_decomp: "\<exists>n. b = rstrip_slash b @ replicate n (CHR ''/'')"
proof -
  let ?P = "\<lambda>c. c = CHR ''/''"
  let ?n = "length (takeWhile ?P (rev b))"
  have "rev b = takeWhile ?P (rev b) @ dropWhile ?P (rev b)" by simp
  then have "rev (rev b) = rev (takeWhile ?P (rev b) @ dropWhile ?P (rev b))" by simp
  then have "b = rev (dropWhile ?P (rev b)) @ rev (takeWhile ?P (rev b))"
    by (simp only: rev_append rev_rev_ident)
  moreover have "rev (takeWhile ?P (rev b)) = replicate ?n (CHR ''/'')"
    by (subst takeWhile_eq_replicate) simp
  ultimately have "b = rstrip_slash b @ replicate ?n (CHR ''/'')"
    unfolding rstrip_slash_def by simp
  then show ?thesis ..
qed

lemma rstrip_slash_last: "\<not> (rstrip_slash b \<noteq> [] \<and> last (rstrip_slash b) = CHR ''/'')"
proof -
  let ?d = "dropWhile (\<lambda>c. c = CHR ''/'') (rev b)"
  have "?d \<noteq> [] \<Longrightarrow> hd ?d \<noteq> CHR ''/''"
    using hd_dropWhile [of "\<lambda>c. c = CHR ''/''" "rev b"] by simp
  then show ?thesis
    unfolding rstrip_slash_def by (auto simp: last_rev)
qed

lemma dict_get_Inl: "dict_get d k x = Inl e \<Longrightarrow> e = AttributeError"
  by (cases d) auto

lemma dict_get_non_dict: "\<forall>kvs. d \<noteq> JDict kvs \<Longrightarrow> dict_get d k x = Inl AttributeError"
  by (cases d) auto

text \<open>
  The classifier leaves with an error of the client's own family exactly when the
  data it reads is a dictionary; on any other decoded value (\<^verbatim>\<open>null\<close>, a number, a
  string, a list) the first \<^verbatim>\<open>.get\<close> raises \<^verbatim>\<open>AttributeError\<close>.
\<close>

lemma handle_error_response_non_dict:
  "\<forall>kvs. error_data resp \<noteq> JDict kvs \<Longrightarrow> handle_error_response render resp = AttributeError"
  by (simp add: handle_error_response_def dict_get_non_dict)

lemma handle_error_response_dict:
  assumes "error_data resp = JDict kvs"
  shows "\<exists>e. handle_error_response render resp = Client e"
  using assms by (simp add: handle_error_response_def Let_def)

lemma error_data_undecodable:
  "json_result resp = Inl d \<Longrightarrow>
   error_data resp =
     JDict [(''error'', JStr (if body_text resp = [] then ''Unknown error'' else body_text resp))]"
  by (simp add: error_data_def)

text \<open>The dispatch table, for a body that is a dictionary.\<close>

lemma handle_error_response_table:
  assumes "error_data resp = JDict kvs"
    and "em = (case map_of kvs ''error'' of
                 Some v \<Rightarrow> fstr render v
               | None \<Rightarrow> ''HTTP '' @ str_int (status_code resp) @ '' error'')"
  shows "handle_error_response render resp =
    Client
     (if status_code resp = 400 then CODAPMetadataError (''Bad Request: '' @ em) None (Some 400)
      else if status_code resp = 401 then
        AuthenticationError (''Unauthorized: '' @ em) (Some ''AUTHENTICATION_FAILED'') (Some 401)
      else if status_code resp = 403 then
        SessionExpiredError (''Forbidden: '' @ em) (Some ''SESSION_EXPIRED'') (Some 403)
      else if status_code resp = 405 then
        CODAPMetadataError (''Method Not Allowed: '' @ em) None (Some 405)
      else if status_code resp = 406 then
        VersionNotSupportedError
          (''Unsupported version: '' @
             fstr render (case map_of kvs ''requestedVersion'' of Some v \<Rightarrow> v | None \<Rightarrow> JStr ''unknown''))
          (Some ''VERSION_NOT_SUPPORTED'') None
          (case map_of kvs ''requestedVersion'' of Some v \<Rightarrow> v | None \<Rightarrow> JStr ''unknown'')
          (case map_of kvs ''supportedVersions'' of Some v \<Rightarrow> v | None \<Rightarrow> JList [])
      else if status_code resp = 500 then
        CODAPMetadataError (''Internal Server Error: '' @ em) None (Some 500)
      else CODAPMetadataError (''HTTP '' @ str_int (status_code resp) @ '': '' @ em) None
             (Some (status_code resp)))"
  using assms
  by (simp add: handle_error_response_def Let_def VersionNotSupportedError_init_def
      split: option.splits)


text \<open>
  Two consequences. A body that does not decode gives, for status 406, the defaults
  \<^verbatim>\<open>unknown\<close> and \<^verbatim>\<open>[]\<close>. A status outside the table, 2xx included, gives the base
  class with that status code, as long as the body is a dictionary or does not decode.
\<close>

lemma status_406_undecodable_body_gives_defaults:
  assumes "json_result resp = Inl d" and "status_code resp = 406"
  shows "handle_error_response render resp =
           Client (VersionNotSupportedError ''Unsupported version: unknown''
                     (Some ''VERSION_NOT_SUPPORTED'') None (JStr ''unknown'') (JList []))"
  using handle_error_response_table [OF error_data_undecodable [OF assms(1)] refl, of render] assms(2)
  by simp

lemma status_outside_table_carries_status_code:
  assumes "error_data resp = JDict kvs"
    and "status_code resp \<notin> {400, 401, 403, 405, 406, 500}"
  shows "\<exists>msg. handle_error_response render resp =
           Client (CODAPMetadataError (''HTTP '' @ str_int (status_code resp) @ '': '' @ msg) None
                     (Some (status_code resp)))"
  using handle_error_response_table [OF assms(1) refl, of render] assms(2)
  by auto

lemma status_204_empty_body:
  "get_tool_manifest opaque_str (reply (text_response 204 [] True)) example_client None =
     Inl (Client (CODAPMetadataError ''HTTP 204: Unknown error'' None (Some 204)))"
  by (simp add: get_tool_manifest_def handle_error_response_def error_data_def reply_def
      text_response_def str_int_def str_nat.simps digit_char_def)

subsection \<open>The request\<close>

text \<open>
  Claim C7, as amended. For every base URL, session identifier, timeout and optional
  API version, the request has the URL made of the base URL without its trailing
  slashes (what is cut off is slashes only, and what is left does not end in one)
  followed by \<^verbatim>\<open>/api/sessions/{sessionId}/metadata\<close>; its headers hold
  \<^verbatim>\<open>Accept-Version\<close> with the given version exactly when a version is given and is
  not the empty string; the headers set on the session never hold that key.
\<close>

theorem manifest_request_url_and_version_header:
  "(\<exists>n. b = rstrip_slash b @ replicate n (CHR ''/'')) \<and>
   \<not> (rstrip_slash b \<noteq> [] \<and> last (rstrip_slash b) = CHR ''/'') \<and>
   url (manifest_request (CODAPMetadataClient_init b s t) api) =
     rstrip_slash b @ ''/api/sessions/'' @ s @ ''/metadata'' \<and>
   map_of (headers (manifest_request (CODAPMetadataClient_init b s t) api)) ''Accept-Version'' =
     (case api of None \<Rightarrow> None | Some v \<Rightarrow> if v = [] then None else Some v) \<and>
   map_of (session_headers (CODAPMetadataClient_init b s t)) ''Accept-Version'' = None"
proof -
  have "url (manifest_request (CODAPMetadataClient_init b s t) api) =
          rstrip_slash b @ ''/api/sessions/'' @ s @ ''/metadata''"
    by (simp add: manifest_request_def CODAPMetadataClient_init_def)
  moreover have
    "map_of (headers (manifest_request (CODAPMetadataClient_init b s t) api)) ''Accept-Version'' =
       (case api of None \<Rightarrow> None | Some v \<Rightarrow> if v = [] then None else Some v)"
    by (simp add: manifest_request_def split: option.splits)
  moreover have "map_of (session_headers (CODAPMetadataClient_init b s t)) ''Accept-Version'' = None"
    by (simp add: CODAPMetadataClient_init_def)
  ultimately show ?thesis
    using rstrip_slash_decomp [of b] rstrip_slash_last [of b] by blast
qed

text \<open>
  The round trip of the specification: version \<^verbatim>\<open>1.2.0\<close> gives the header
  \<^verbatim>\<open>Accept-Version: 1.2.0\<close>, no version gives no such key, and two trailing slashes
  of the base URL are gone from the URL.
\<close>

theorem manifest_request_url_and_version_header_witness:
  "url (manifest_request (CODAPMetadataClient_init ''https://codap.example//'' ''abc123'' 30)
     (Some ''1.2.0'')) = ''https://codap.example/api/sessions/abc123/metadata'' \<and>
   map_of (headers (manifest_request (CODAPMetadataClient_init ''https://codap.example//'' ''abc123'' 30)
     (Some ''1.2.0''))) ''Accept-Version'' = Some ''1.2.0'' \<and>
   map_of (headers (manifest_request (CODAPMetadataClient_init ''https://codap.example//'' ''abc123'' 30)
     None)) ''Accept-Version'' = None"
  using manifest_request_url_and_version_header
          [of "''https://codap.example//''" "''abc123''" 30 "Some ''1.2.0''"]
        manifest_request_url_and_version_header
          [of "''https://codap.example//''" "''abc123''" 30 None]
  by (simp add: rstrip_slash_def)

text \<open>
  Claim C7 as stated fails for the empty version string: it is a version that the
  caller provides, and the request carries no \<^verbatim>\<open>Accept-Version\<close> header.
\<close>

theorem empty_version_adds_no_header:
  "map_of (headers (manifest_request example_client (Some []))) ''Accept-Version'' = None"
  by (simp add: manifest_request_def)

subsection \<open>Transport failures\<close>



subsection \<open>Status 200\<close>

text \<open>
  Claim C6, as amended. A response with status 200 is never checked against the shape
  of a manifest. When its body decodes as JSON, \<^verbatim>\<open>get_tool_manifest\<close> returns the
  decoded value as it is. When it does not decode, \<^verbatim>\<open>get_tool_manifest\<close> returns
  nothing: if the decode error is a \<^verbatim>\<open>RequestException\<close> it raises the same
  \<^verbatim>\<open>Network error\<close> \<^verbatim>\<open>CODAPMetadataError\<close> as for a transport failure, otherwise the
  decode error itself leaves the method.
\<close>

theorem status_200_body_is_not_validated:
  assumes "send (manifest_request self api) = Inr resp" and "status_code resp = 200"
  shows "(json_result resp = Inr v \<longrightarrow> get_tool_manifest render send self api = Inr v) \<and>
         (json_result resp = Inl (DecodeError True msg) \<longrightarrow>
            get_tool_manifest render send self api =
              Inl (Client (CODAPMetadataError (''Network error: '' @ msg) None None))) \<and>
         (json_result resp = Inl (DecodeError False msg) \<longrightarrow>
            get_tool_manifest render send self api = Inl (ValueError msg))"
  using assms by (simp add: get_tool_manifest_def)

theorem status_200_body_is_not_validated_witness:
  "get_tool_manifest opaque_str (reply (json_response 200 ''[]'' (JList []))) example_client None =
     Inr (JList []) \<and>
   get_tool_manifest opaque_str (reply (text_response 200 ''<html>'' True)) example_client None =
     Inl (Client (CODAPMetadataError ''Network error: Expecting value'' None None)) \<and>
   get_tool_manifest opaque_str (reply (text_response 200 ''<html>'' False)) example_client None =
     Inl (ValueError ''Expecting value'')"
  using
    status_200_body_is_not_validated
      [where send = "reply (json_response 200 ''[]'' (JList []))" and self = example_client
         and api = None and resp = "json_response 200 ''[]'' (JList [])" and v = "JList []"
         and render = opaque_str]
    status_200_body_is_not_validated
      [where send = "reply (text_response 200 ''<html>'' True)" and self = example_client
         and api = None and resp = "text_response 200 ''<html>'' True"
         and msg = "''Expecting value''" and render = opaque_str]
    status_200_body_is_not_validated
      [where send = "reply (text_response 200 ''<html>'' False)" and self = example_client
         and api = None and resp = "text_response 200 ''<html>'' False"
         and msg = "''Expecting value''" and render = opaque_str]
  by (simp add: reply_def json_response_def text_response_def)

text \<open>
  Claim C6 as stated fails: the body \<^verbatim>\<open>{}\<close> is no manifest (it has neither
  \<^verbatim>\<open>apiVersion\<close> nor \<^verbatim>\<open>tools\<close>), and with status 200 it is returned as the result;
  and a body that is not JSON at all can leave the method as the bare decode error.
\<close>

theorem non_manifest_body_is_returned:
  "get_tool_manifest opaque_str (reply (json_response 200 ''{}'' (JDict []))) example_client None =
     Inr (JDict []) \<and>
   get_tool_manifest opaque_str (reply (text_response 200 ''<html>'' False)) example_client None =
     Inl (ValueError ''Expecting value'')"
  by (simp add: get_tool_manifest_def reply_def json_response_def text_response_def)

subsection \<open>The classifier on a body that is no dictionary\<close>

text \<open>
  Claim C1 says that the classifier maps every status code to an error of the
  client's family and never fails on a malformed body. It does fail: for status 400
  with the body \<^verbatim>\<open>[]\<close>, which decodes to a list, \<^verbatim>\<open>error_data.get\<close> raises
  \<^verbatim>\<open>AttributeError\<close> and no \<^verbatim>\<open>CODAPMetadataError\<close> is raised.
\<close>

theorem status_400_list_body_raises_AttributeError:
  "handle_error_response opaque_str (json_response 400 ''[]'' (JList [])) = AttributeError"
  by (simp add: handle_error_response_def error_data_def json_response_def)

text \<open>
  Claim C2 says that every response with status 406 yields
  \<^verbatim>\<open>VersionNotSupportedError\<close>, with the defaults when the fields are missing. For the
  body \<^verbatim>\<open>["1.0.0"]\<close>, a list, the classifier raises \<^verbatim>\<open>AttributeError\<close> instead.
\<close>

theorem status_406_list_body_raises_AttributeError:
  "handle_error_response opaque_str
     (json_response 406 ''[\"1.0.0\"]'' (JList [JStr ''1.0.0''])) = AttributeError"
  by (simp add: handle_error_response_def error_data_def json_response_def)

text \<open>
  Claim C10 says that every response with a 2xx status other than 200 makes
  \<^verbatim>\<open>get_tool_manifest\<close> raise the \<^verbatim>\<open>CODAPMetadataError\<close> for an unknown status. For
  status 201 with the body \<^verbatim>\<open>42\<close> no manifest is returned, but what is raised is
  \<^verbatim>\<open>AttributeError\<close>.
\<close>

theorem status_201_number_body_raises_AttributeError:
  "get_tool_manifest opaque_str (reply (json_response 201 ''42'' (JInt 42))) example_client None =
     Inl AttributeError"
  by (simp add: get_tool_manifest_def handle_error_response_def error_data_def
      json_response_def reply_def manifest_response_def expired_response_def
      unsupported_response_def)

subsection \<open>What an error carries\<close>

text \<open>
  What the code does. Every error of the client's family that \<^verbatim>\<open>get_tool_manifest\<close>
  raises has a non-empty message and an optional code. After a transport failure (and
  after a decode error on status 200 that is a \<^verbatim>\<open>RequestException\<close>) it is of the base
  class with neither code nor status code. For status 406 it is a
  \<^verbatim>\<open>VersionNotSupportedError\<close> with the code \<^verbatim>\<open>VERSION_NOT_SUPPORTED\<close>, with no status
  code, and with the requested and the supported versions read from the body. For
  every other status it is not a \<^verbatim>\<open>VersionNotSupportedError\<close> and carries the status
  code of the response, with the code \<^verbatim>\<open>AUTHENTICATION_FAILED\<close> for 401,
  \<^verbatim>\<open>SESSION_EXPIRED\<close> for 403 and none otherwise.
\<close>

lemma client_error_fields:
  assumes "get_tool_manifest render send self api = Inl (Client e)"
  shows "err_message e \<noteq> [] \<and>
    (case send (manifest_request self api) of
       Inl msg \<Rightarrow> is_CODAPMetadataError e \<and> err_code e = None \<and> err_status_code e = None
     | Inr resp \<Rightarrow>
         if status_code resp = 200 then
           is_CODAPMetadataError e \<and> err_code e = None \<and> err_status_code e = None
         else if status_code resp = 406 then
           is_VersionNotSupportedError e \<and>
           err_code e = Some ''VERSION_NOT_SUPPORTED'' \<and>
           err_status_code e = None \<and>
           dict_get (error_data resp) ''requestedVersion'' (JStr ''unknown'') =
             Inr (err_requested_version e) \<and>
           dict_get (error_data resp) ''supportedVersions'' (JList []) =
             Inr (err_supported_versions e)
         else
           \<not> is_VersionNotSupportedError e \<and>
           err_status_code e = Some (status_code resp) \<and>
           err_code e =
             (if status_code resp = 401 then Some ''AUTHENTICATION_FAILED''
              else if status_code resp = 403 then Some ''SESSION_EXPIRED''
              else None))"
proof (cases "send (manifest_request self api)")
  case (Inl msg)
  with assms show ?thesis
    by (auto simp: get_tool_manifest_def)
next
  case (Inr resp)
  show ?thesis
  proof (cases "status_code resp = 200")
    case True
    with assms Inr show ?thesis
      by (auto simp: get_tool_manifest_def split: sum.splits decode_error.splits if_splits)
  next
    case False
    with assms Inr have raised: "handle_error_response render resp = Client e"
      by (simp add: get_tool_manifest_def)
    have "\<exists>kvs. error_data resp = JDict kvs"
    proof (rule ccontr)
      assume "\<not> (\<exists>kvs. error_data resp = JDict kvs)"
      then have "handle_error_response render resp = AttributeError"
        by (simp add: handle_error_response_non_dict)
      with raised show False by simp
    qed
    then obtain kvs where kvs: "error_data resp = JDict kvs" ..
    from handle_error_response_table [OF kvs refl, of render] raised kvs Inr False
    show ?thesis
      by (auto split: if_splits)
  qed
qed

lemma client_error_fields_example:
  "get_tool_manifest opaque_str
     (reply expired_response)
     example_client None =
     Inl (Client (SessionExpiredError ''Forbidden: expired'' (Some ''SESSION_EXPIRED'') (Some 403))) \<and>
   err_message (SessionExpiredError ''Forbidden: expired'' (Some ''SESSION_EXPIRED'') (Some 403)) \<noteq> [] \<and>
   err_status_code (SessionExpiredError ''Forbidden: expired'' (Some ''SESSION_EXPIRED'') (Some 403)) =
     Some 403"
  using client_error_fields
          [where render = opaque_str and self = example_client and api = None
             and send = "reply expired_response"
             and e = "SessionExpiredError ''Forbidden: expired'' (Some ''SESSION_EXPIRED'') (Some 403)"]
  by (simp add: get_tool_manifest_def handle_error_response_def error_data_def
      json_response_def reply_def manifest_response_def expired_response_def
      unsupported_response_def)

text \<open>
  Claim C5 says that every error but the one for a transport failure carries the HTTP
  status code it comes from. Every other branch of \<^verbatim>\<open>_handle_error_response\<close> passes
  \<^verbatim>\<open>status_code\<close>; the branch for 406 cannot, because
  \<^verbatim>\<open>VersionNotSupportedError.__init__\<close> does not hand it on to the base class. For
  status 406 with the body
  \<^verbatim>\<open>{"requestedVersion": "2.0.0", "supportedVersions": ["1.0.0"]}\<close> the error raised
  has the status code \<^verbatim>\<open>None\<close>, not 406.
\<close>

theorem version_not_supported_has_no_status_code:
  "handle_error_response opaque_str unsupported_response =
     Client (VersionNotSupportedError ''Unsupported version: 2.0.0''
               (Some ''VERSION_NOT_SUPPORTED'') None (JStr ''2.0.0'') (JList [JStr ''1.0.0''])) \<and>
   err_status_code (VersionNotSupportedError ''Unsupported version: 2.0.0''
               (Some ''VERSION_NOT_SUPPORTED'') None (JStr ''2.0.0'') (JList [JStr ''1.0.0''])) \<noteq>
     Some 406"
  by (simp add: handle_error_response_def error_data_def json_response_def
      unsupported_response_def VersionNotSupportedError_init_def)

subsection \<open>The negotiation probe\<close>

text \<open>
  Claim C3, as amended. \<^verbatim>\<open>test_version_negotiation\<close> calls \<^verbatim>\<open>get_tool_manifest\<close>
  with the requested version. When that returns a value with an \<^verbatim>\<open>apiVersion\<close> entry,
  the result is the success record holding the value and that entry. The value is
  not validated: a dictionary without the entry makes the method raise \<^verbatim>\<open>KeyError\<close>,
  and a value that is no dictionary \<^verbatim>\<open>TypeError\<close>. When \<^verbatim>\<open>get_tool_manifest\<close> raises
  a \<^verbatim>\<open>VersionNotSupportedError\<close>, the result is the failure record holding the
  error's message, requested version and supported versions. An error of any other
  class of the family leaves the method unchanged.
\<close>

theorem test_version_negotiation_outcomes:
  "(get_tool_manifest render send self (Some rv) = Inr m \<and> py_getitem m ''apiVersion'' = Inr v \<longrightarrow>
      test_version_negotiation render send self rv =
        Inr \<lparr>success = True, version = v, error = JNull, requested_version = JNull,
             supported_versions = JNull, manifest = m\<rparr>) \<and>
   (get_tool_manifest render send self (Some rv) = Inr (JDict kvs) \<and>
    map_of kvs ''apiVersion'' = None \<longrightarrow>
      test_version_negotiation render send self rv = Inl (KeyError ''apiVersion'')) \<and>
   (get_tool_manifest render send self (Some rv) = Inr m \<and> (\<forall>xs. m \<noteq> JDict xs) \<longrightarrow>
      test_version_negotiation render send self rv = Inl TypeError) \<and>
   (get_tool_manifest render send self (Some rv) = Inl (Client e) \<and>
    is_VersionNotSupportedError e \<longrightarrow>
      test_version_negotiation render send self rv =
        Inr \<lparr>success = False, version = JNull, error = JStr (err_message e),
             requested_version = err_requested_version e,
             supported_versions = err_supported_versions e, manifest = JNull\<rparr>) \<and>
   (get_tool_manifest render send self (Some rv) = Inl (Client e) \<and>
    \<not> is_VersionNotSupportedError e \<longrightarrow>
      test_version_negotiation render send self rv = Inl (Client e))"
proof -
  have ok: "test_version_negotiation render send self rv =
        Inr \<lparr>success = True, version = v, error = JNull, requested_version = JNull,
             supported_versions = JNull, manifest = m\<rparr>"
    if "get_tool_manifest render send self (Some rv) = Inr m"
      and "py_getitem m ''apiVersion'' = Inr v"
    using that by (simp add: test_version_negotiation_def)
  have no_entry: "test_version_negotiation render send self rv = Inl (KeyError ''apiVersion'')"
    if "get_tool_manifest render send self (Some rv) = Inr (JDict kvs)"
      and "map_of kvs ''apiVersion'' = None"
    using that by (simp add: test_version_negotiation_def)
  have no_dict: "test_version_negotiation render send self rv = Inl TypeError"
    if "get_tool_manifest render send self (Some rv) = Inr m" and "\<forall>xs. m \<noteq> JDict xs"
    using that by (cases m) (simp_all add: test_version_negotiation_def)
  have unsupported: "test_version_negotiation render send self rv =
        Inr \<lparr>success = False, version = JNull, error = JStr (err_message e),
             requested_version = err_requested_version e,
             supported_versions = err_supported_versions e, manifest = JNull\<rparr>"
    if "get_tool_manifest render send self (Some rv) = Inl (Client e)"
      and "is_VersionNotSupportedError e"
    using that by (cases e) (simp_all add: test_version_negotiation_def)
  have other: "test_version_negotiation render send self rv = Inl (Client e)"
    if "get_tool_manifest render send self (Some rv) = Inl (Client e)"
      and "\<not> is_VersionNotSupportedError e"
    using that by (cases e) (simp_all add: test_version_negotiation_def)
  from ok no_entry no_dict unsupported other show ?thesis by blast
qed

text \<open>
  The cases on responses: status 200 with a manifest, status 406 for version
  \<^verbatim>\<open>2.0.0\<close>, status 403, whose \<^verbatim>\<open>SessionExpiredError\<close> is not caught, and status
  200 with the bodies \<^verbatim>\<open>{"tools": []}\<close> and \<^verbatim>\<open>[]\<close>.
\<close>

theorem test_version_negotiation_outcomes_witness:
  "test_version_negotiation opaque_str (reply manifest_response)
     example_client ''1.0.0'' =
     Inr \<lparr>success = True, version = JStr ''1.0.0'', error = JNull, requested_version = JNull,
          supported_versions = JNull, manifest = example_manifest\<rparr> \<and>
   test_version_negotiation opaque_str
     (reply unsupported_response)
     example_client ''2.0.0'' =
     Inr \<lparr>success = False, version = JNull, error = JStr ''Unsupported version: 2.0.0'',
          requested_version = JStr ''2.0.0'', supported_versions = JList [JStr ''1.0.0''],
          manifest = JNull\<rparr> \<and>
   test_version_negotiation opaque_str
     (reply expired_response)
     example_client ''1.0.0'' =
     Inl (Client (SessionExpiredError ''Forbidden: expired'' (Some ''SESSION_EXPIRED'') (Some 403))) \<and>
   test_version_negotiation opaque_str
     (reply (json_response 200 ''{\"tools\": []}'' (JDict [(''tools'', JList [])])))
     example_client ''1.0.0'' = Inl (KeyError ''apiVersion'') \<and>
   test_version_negotiation opaque_str (reply (json_response 200 ''[]'' (JList [])))
     example_client ''1.0.0'' = Inl TypeError"
  using
    test_version_negotiation_outcomes
      [where render = opaque_str and self = example_client and rv = "''1.0.0''"
         and send = "reply (json_response 200 ''{\"tools\": []}'' (JDict [(''tools'', JList [])]))"
         and kvs = "[(''tools'', JList [])]"]
    test_version_negotiation_outcomes
      [where render = opaque_str and self = example_client and rv = "''1.0.0''"
         and send = "reply (json_response 200 ''[]'' (JList []))" and m = "JList []"]
    test_version_negotiation_outcomes
      [where render = opaque_str and self = example_client and rv = "''1.0.0''"
         and send = "reply manifest_response"
         and m = example_manifest and v = "JStr ''1.0.0''"]
    test_version_negotiation_outcomes
      [where render = opaque_str and self = example_client and rv = "''2.0.0''"
         and send = "reply unsupported_response"
         and e = "VersionNotSupportedError ''Unsupported version: 2.0.0''
            (Some ''VERSION_NOT_SUPPORTED'') None (JStr ''2.0.0'') (JList [JStr ''1.0.0''])"]
    test_version_negotiation_outcomes
      [where render = opaque_str and self = example_client and rv = "''1.0.0''"
         and send = "reply expired_response"
         and e = "SessionExpiredError ''Forbidden: expired'' (Some ''SESSION_EXPIRED'') (Some 403)"]
  by (simp add: get_tool_manifest_def handle_error_response_def error_data_def
      json_response_def reply_def manifest_response_def expired_response_def
      unsupported_response_def VersionNotSupportedError_init_def example_manifest_def)

text \<open>
  Claim C3 as stated fails: status 200 with the body \<^verbatim>\<open>{}\<close> is a success of
  \<^verbatim>\<open>get_tool_manifest\<close>, and \<^verbatim>\<open>test_version_negotiation\<close> returns no success record
  but raises \<^verbatim>\<open>KeyError\<close>.
\<close>

theorem negotiation_on_body_without_apiVersion:
  "get_tool_manifest opaque_str (reply (json_response 200 ''{}'' (JDict []))) example_client
     (Some ''1.0.0'') = Inr (JDict []) \<and>
   test_version_negotiation opaque_str (reply (json_response 200 ''{}'' (JDict []))) example_client
     ''1.0.0'' = Inl (KeyError ''apiVersion'')"
  by (simp add: test_version_negotiation_def get_tool_manifest_def json_response_def reply_def)




subsection \<open>Convenience methods\<close>

lemma any_name_eq_named:
  "\<forall>t\<in>set ts. \<exists>v. py_getitem t ''name'' = Inr v \<Longrightarrow>
   any_name_eq ts n = Inr (\<exists>t\<in>set ts. py_getitem t ''name'' = Inr (JStr n))"
proof (induction ts)
  case Nil
  then show ?case by simp
next
  case (Cons t ts)
  then obtain v where v: "py_getitem t ''name'' = Inr v" by auto
  from Cons have "any_name_eq ts n = Inr (\<exists>t\<in>set ts. py_getitem t ''name'' = Inr (JStr n))"
    by simp
  with v show ?case by auto
qed

lemma tool_summaries_described:
  "\<forall>t\<in>set ts. (\<exists>v. py_getitem t ''name'' = Inr v) \<and> (\<exists>d. py_getitem t ''description'' = Inr d) \<Longrightarrow>
   \<exists>rs. tool_summaries ts = Inr rs \<and>
        list_all2 (\<lambda>t s. \<exists>v d. py_getitem t ''name'' = Inr v \<and>
                               py_getitem t ''description'' = Inr d \<and>
                               s = JDict [(''name'', v), (''description'', d)]) ts rs"
proof (induction ts)
  case Nil
  then show ?case by simp
next
  case (Cons t ts)
  then obtain v d where vd: "py_getitem t ''name'' = Inr v" "py_getitem t ''description'' = Inr d"
    by auto
  from Cons obtain rs where rs: "tool_summaries ts = Inr rs"
    "list_all2 (\<lambda>t s. \<exists>v d. py_getitem t ''name'' = Inr v \<and>
                               py_getitem t ''description'' = Inr d \<and>
                               s = JDict [(''name'', v), (''description'', d)]) ts rs"
    by auto
  from vd rs show ?case by simp
qed

text \<open>
  Claim C4, as amended. Whenever \<^verbatim>\<open>get_tool_manifest\<close> raises an error of the
  client's family, \<^verbatim>\<open>is_tool_available\<close> returns \<^verbatim>\<open>False\<close>, \<^verbatim>\<open>get_tool_schema\<close>
  returns \<^verbatim>\<open>None\<close> and \<^verbatim>\<open>list_available_tools\<close> returns the empty list; none of them
  raises. The value it returns on success is not validated. When its \<^verbatim>\<open>tools\<close> entry
  is a list of tools that all have a name, \<^verbatim>\<open>is_tool_available\<close> returns whether
  some tool's name equals the given one; when all have a description too,
  \<^verbatim>\<open>list_available_tools\<close> returns one \<^verbatim>\<open>{name, description}\<close> dictionary per tool, in
  the order of the manifest. When the value is a dictionary without a \<^verbatim>\<open>tools\<close>
  entry, the three methods raise \<^verbatim>\<open>KeyError\<close>; when it is no dictionary, they raise
  \<^verbatim>\<open>TypeError\<close>.
\<close>

theorem convenience_methods:
  "(get_tool_manifest render send self None = Inl (Client e) \<longrightarrow>
      is_tool_available render send self n = Inr False \<and>
      get_tool_schema render send self n = Inr JNull \<and>
      list_available_tools render send self = Inr []) \<and>
   (get_tool_manifest render send self None = Inr m \<and>
    py_getitem m ''tools'' = Inr (JList ts) \<and>
    (\<forall>t\<in>set ts. \<exists>v. py_getitem t ''name'' = Inr v) \<longrightarrow>
      is_tool_available render send self n =
        Inr (\<exists>t\<in>set ts. py_getitem t ''name'' = Inr (JStr n))) \<and>
   (get_tool_manifest render send self None = Inr m \<and>
    py_getitem m ''tools'' = Inr (JList ts) \<and>
    (\<forall>t\<in>set ts. (\<exists>v. py_getitem t ''name'' = Inr v) \<and>
                 (\<exists>d. py_getitem t ''description'' = Inr d)) \<longrightarrow>
      (\<exists>rs. list_available_tools render send self = Inr rs \<and>
            list_all2 (\<lambda>t s. \<exists>v d. py_getitem t ''name'' = Inr v \<and>
                                   py_getitem t ''description'' = Inr d \<and>
                                   s = JDict [(''name'', v), (''description'', d)]) ts rs)) \<and>
   (get_tool_manifest render send self None = Inr (JDict kvs) \<and> map_of kvs ''tools'' = None \<longrightarrow>
      is_tool_available render send self n = Inl (KeyError ''tools'') \<and>
      get_tool_schema render send self n = Inl (KeyError ''tools'') \<and>
      list_available_tools render send self = Inl (KeyError ''tools'')) \<and>
   (get_tool_manifest render send self None = Inr m \<and> (\<forall>xs. m \<noteq> JDict xs) \<longrightarrow>
      is_tool_available render send self n = Inl TypeError \<and>
      get_tool_schema render send self n = Inl TypeError \<and>
      list_available_tools render send self = Inl TypeError)"
proof -
  have swallowed:
    "is_tool_available render send self n = Inr False \<and>
     get_tool_schema render send self n = Inr JNull \<and>
     list_available_tools render send self = Inr []"
    if "get_tool_manifest render send self None = Inl (Client e)"
    using that
    by (simp add: is_tool_available_def get_tool_schema_def list_available_tools_def)
  have available:
    "is_tool_available render send self n =
       Inr (\<exists>t\<in>set ts. py_getitem t ''name'' = Inr (JStr n))"
    if "get_tool_manifest render send self None = Inr m"
      and "py_getitem m ''tools'' = Inr (JList ts)"
      and "\<forall>t\<in>set ts. \<exists>v. py_getitem t ''name'' = Inr v"
    using that any_name_eq_named [of ts n]
    by (simp add: is_tool_available_def)
  have listed:
    "\<exists>rs. list_available_tools render send self = Inr rs \<and>
          list_all2 (\<lambda>t s. \<exists>v d. py_getitem t ''name'' = Inr v \<and>
                                 py_getitem t ''description'' = Inr d \<and>
                                 s = JDict [(''name'', v), (''description'', d)]) ts rs"
    if "get_tool_manifest render send self None = Inr m"
      and "py_getitem m ''tools'' = Inr (JList ts)"
      and "\<forall>t\<in>set ts. (\<exists>v. py_getitem t ''name'' = Inr v) \<and>
                        (\<exists>d. py_getitem t ''description'' = Inr d)"
    using that tool_summaries_described [of ts]
    by (simp add: list_available_tools_def)
  have no_entry:
    "is_tool_available render send self n = Inl (KeyError ''tools'') \<and>
     get_tool_schema render send self n = Inl (KeyError ''tools'') \<and>
     list_available_tools render send self = Inl (KeyError ''tools'')"
    if "get_tool_manifest render send self None = Inr (JDict kvs)"
      and "map_of kvs ''tools'' = None"
    using that
    by (simp add: is_tool_available_def get_tool_schema_def list_available_tools_def)
  have no_dict:
    "is_tool_available render send self n = Inl TypeError \<and>
     get_tool_schema render send self n = Inl TypeError \<and>
     list_available_tools render send self = Inl TypeError"
    if "get_tool_manifest render send self None = Inr m" and "\<forall>xs. m \<noteq> JDict xs"
    using that
    by (cases m)
      (simp_all add: is_tool_available_def get_tool_schema_def list_available_tools_def)
  from swallowed available listed no_entry no_dict show ?thesis by blast
qed

text \<open>
  On the example manifest the tool \<^verbatim>\<open>create_graph\<close> is found and both tools are listed
  in order; after status 403 the three methods return their defaults.
\<close>

theorem convenience_methods_witness:
  "is_tool_available opaque_str (reply manifest_response) example_client ''create_graph'' =
     Inr True \<and>
   list_available_tools opaque_str (reply manifest_response) example_client =
     Inr [JDict [(''name'', JStr ''create_codap_dataset''),
                 (''description'', JStr ''Create a dataset'')],
          JDict [(''name'', JStr ''create_graph''), (''description'', JStr ''Create a graph'')]] \<and>
   get_tool_manifest opaque_str (reply expired_response) example_client None =
     Inl (Client (SessionExpiredError ''Forbidden: expired'' (Some ''SESSION_EXPIRED'') (Some 403))) \<and>
   is_tool_available opaque_str (reply expired_response) example_client ''create_graph'' =
     Inr False \<and>
   get_tool_schema opaque_str (reply expired_response) example_client ''create_graph'' =
     Inr JNull \<and>
   list_available_tools opaque_str (reply expired_response) example_client = Inr [] \<and>
   get_tool_schema opaque_str
     (reply (json_response 200 ''{\"apiVersion\": \"1.0.0\"}'' (JDict [(''apiVersion'', JStr ''1.0.0'')])))
     example_client ''create_graph'' = Inl (KeyError ''tools'') \<and>
   is_tool_available opaque_str (reply (json_response 200 ''[]'' (JList []))) example_client
     ''create_graph'' = Inl TypeError"
proof -
  let ?ts = "[JDict [(''name'', JStr ''create_codap_dataset''),
                     (''description'', JStr ''Create a dataset''),
                     (''inputSchema'', JDict [(''type'', JStr ''object'')])],
              JDict [(''name'', JStr ''create_graph''),
                     (''description'', JStr ''Create a graph'')]]"
  have fetched: "get_tool_manifest opaque_str (reply manifest_response) example_client None =
      Inr example_manifest"
    by (simp add: get_tool_manifest_def reply_def manifest_response_def json_response_def)
  have tools: "py_getitem example_manifest ''tools'' = Inr (JList ?ts)"
    by (simp add: example_manifest_def)
  have named: "\<forall>t\<in>set ?ts. (\<exists>v. py_getitem t ''name'' = Inr v) \<and>
                            (\<exists>d. py_getitem t ''description'' = Inr d)"
    by simp
  have expired: "get_tool_manifest opaque_str (reply expired_response) example_client None =
      Inl (Client (SessionExpiredError ''Forbidden: expired'' (Some ''SESSION_EXPIRED'') (Some 403)))"
    by (simp add: get_tool_manifest_def handle_error_response_def error_data_def reply_def
        expired_response_def json_response_def)
  from fetched tools named
    convenience_methods
      [where render = opaque_str and send = "reply manifest_response" and self = example_client
         and m = example_manifest and ts = ?ts and n = "''create_graph''"]
  have "is_tool_available opaque_str (reply manifest_response) example_client ''create_graph'' =
          Inr True"
    by simp
  moreover
  from fetched tools named
    convenience_methods
      [where render = opaque_str and send = "reply manifest_response" and self = example_client
         and m = example_manifest and ts = ?ts]
  have "list_available_tools opaque_str (reply manifest_response) example_client =
     Inr [JDict [(''name'', JStr ''create_codap_dataset''),
                 (''description'', JStr ''Create a dataset'')],
          JDict [(''name'', JStr ''create_graph''), (''description'', JStr ''Create a graph'')]]"
    by (auto simp: list_all2_Cons1)
  moreover
  from expired
    convenience_methods
      [where render = opaque_str and send = "reply expired_response" and self = example_client
         and n = "''create_graph''"
         and e = "SessionExpiredError ''Forbidden: expired'' (Some ''SESSION_EXPIRED'') (Some 403)"]
  have "is_tool_available opaque_str (reply expired_response) example_client ''create_graph'' =
          Inr False \<and>
        get_tool_schema opaque_str (reply expired_response) example_client ''create_graph'' =
          Inr JNull \<and>
        list_available_tools opaque_str (reply expired_response) example_client = Inr []"
    by simp
  moreover
  from convenience_methods
      [where render = opaque_str and self = example_client and n = "''create_graph''"
         and send = "reply (json_response 200 ''{\"apiVersion\": \"1.0.0\"}''
                              (JDict [(''apiVersion'', JStr ''1.0.0'')]))"
         and kvs = "[(''apiVersion'', JStr ''1.0.0'')]"]
  have "get_tool_schema opaque_str
     (reply (json_response 200 ''{\"apiVersion\": \"1.0.0\"}'' (JDict [(''apiVersion'', JStr ''1.0.0'')])))
     example_client ''create_graph'' = Inl (KeyError ''tools'')"
    by (simp add: get_tool_manifest_def reply_def json_response_def)
  moreover
  from convenience_methods
      [where render = opaque_str and self = example_client and n = "''create_graph''"
         and send = "reply (json_response 200 ''[]'' (JList []))" and m = "JList []"]
  have "is_tool_available opaque_str (reply (json_response 200 ''[]'' (JList []))) example_client
     ''create_graph'' = Inl TypeError"
    by (simp add: get_tool_manifest_def reply_def json_response_def)
  ultimately show ?thesis using expired by simp
qed

text \<open>
  Claim C4 as stated fails: status 200 with the body \<^verbatim>\<open>{}\<close> is a success of
  \<^verbatim>\<open>get_tool_manifest\<close>, and the methods raise \<^verbatim>\<open>KeyError\<close> where the claim has
  them return a truth value and a list.
\<close>

theorem convenience_methods_on_body_without_tools:
  "get_tool_manifest opaque_str (reply (json_response 200 ''{}'' (JDict []))) example_client None =
     Inr (JDict []) \<and>
   is_tool_available opaque_str (reply (json_response 200 ''{}'' (JDict []))) example_client
     ''create_graph'' = Inl (KeyError ''tools'') \<and>
   list_available_tools opaque_str (reply (json_response 200 ''{}'' (JDict []))) example_client =
     Inl (KeyError ''tools'')"
  by (simp add: is_tool_available_def list_available_tools_def get_tool_manifest_def
      json_response_def reply_def)

end
